theory Spec2Isabelle
  imports Main "HOL-Library.Sublist"
begin

section \<open>Python library functions used by voice\_ai.py\<close>

text \<open>
  Python strings are modelled as \<^typ>\<open>string\<close>; one \<^typ>\<open>char\<close> stands for one
  code point (the literals of the source that reach a transcript are ASCII), so
  \<^term>\<open>length\<close> is Python's \<open>len\<close>.
\<close>

text \<open>\<open>str(n)\<close> for an integer: decimal digits, with a minus sign when negative.\<close>

definition digit_char :: "nat \<Rightarrow> char" where
  "digit_char d = ''0123456789'' ! d"

function str_nat :: "nat \<Rightarrow> string" where
  "str_nat n = (if n < 10 then [digit_char n] else str_nat (n div 10) @ [digit_char (n mod 10)])"
  by pat_completeness auto
termination
  by (relation "measure id") auto

declare str_nat.simps [simp del]

definition str_int :: "int \<Rightarrow> string" where
  "str_int i = (if i < 0 then CHR ''-'' # str_nat (nat (- i)) else str_nat (nat i))"

text \<open>
  \<open>str.isspace\<close> on the code points below 256, and \<open>str.strip()\<close>, which removes the
  whitespace at both ends.
\<close>

definition isspace :: "char \<Rightarrow> bool" where
  "isspace c = (let n = of_char c :: nat in
     (9 \<le> n \<and> n \<le> 13) \<or> (28 \<le> n \<and> n \<le> 32) \<or> n = 133 \<or> n = 160)"

definition strip :: "string \<Rightarrow> string" where
  "strip s = rev (dropWhile isspace (rev (dropWhile isspace s)))"

text \<open>
  \<open>s.replace(old, new)\<close>: every non-overlapping occurrence of \<open>old\<close>, from the left.
  With an empty \<open>old\<close> Python puts \<open>new\<close> before every character and at the end.
\<close>

function replace :: "string \<Rightarrow> string \<Rightarrow> string \<Rightarrow> string" where
  "replace old new s =
     (if old = [] then new @ concat (map (\<lambda>c. c # new) s)
      else if s = [] then []
      else if prefix old s then new @ replace old new (drop (length old) s)
      else hd s # replace old new (tl s))"
  by pat_completeness auto
termination
  by (relation "measure (\<lambda>(old, new, s). length s)") auto

declare replace.simps [simp del]

text \<open>\<open>sep.join(xs)\<close>.\<close>

fun join :: "string \<Rightarrow> string list \<Rightarrow> string" where
  "join sep [] = []"
| "join sep [x] = x"
| "join sep (x # y # ys) = x @ sep @ join sep (y # ys)"

text \<open>
  The slice \<open>xs[i:]\<close>: a negative start counts from the end, and a start outside the
  list is clamped, so the slice never raises.
\<close>

definition slice_from :: "int \<Rightarrow> 'a list \<Rightarrow> 'a list" where
  "slice_from i xs =
     (let n = int (length xs);
          j = (if i < 0 then max 0 (n + i) else min i n)
      in drop (nat j) xs)"

section \<open>Data model\<close>

text \<open>
  A turn is the dict literal built in \<open>process_demo_conversation\<close>: its keys in
  insertion order, all values strings.
\<close>

type_synonym message = "(string \<times> string) list"

datatype error = KeyError | Exception

text \<open>
  What a call reads from outside the object: the clock (\<open>int(time.time())\<close> and the
  two \<open>datetime.now().isoformat()\<close> strings) and the outcome of the tokenizer and
  model calls on a prompt (\<open>encode\<close>, \<open>generate\<close>, \<open>decode\<close>), which may raise.
\<close>

record env =
  epoch_seconds :: int
  user_timestamp :: string
  ai_timestamp :: string
  llm_decode :: "string \<Rightarrow> error + string"

text \<open>
  The fields of \<open>VoiceAI\<close> that the conversation path reads or writes.
  \<open>llm_loaded\<close> is the truth value of \<open>self.llm_model and self.tokenizer\<close>;
  \<open>response_index\<close> is the counter of the \<open>MockAudioProcessor\<close>; an entry of
  \<open>active_calls\<close> is its \<open>'history'\<close> list.
\<close>

record voice_ai =
  demo_mode :: bool
  llm_loaded :: bool
  response_index :: nat
  active_calls :: "string option \<rightharpoonup> string list"
  demo_conversations :: "string \<rightharpoonup> message list"

text \<open>The dict returned by \<open>process_demo_conversation\<close>.\<close>

record result =
  conversation_id :: string
  user_message :: message
  ai_response :: message
  conversation_history :: "message list"

section \<open>MockAudioProcessor\<close>

definition responses :: "string list" where
  "responses =
     [''I understand you'd like assistance. How can I help you today?'',
      ''Thank you for that information. Let me help you with that.'',
      ''I see. Could you provide more details about your request?'',
      ''That's a great question. Let me explain that for you.'',
      ''I'll be happy to assist you with that. What else would you like to know?'',
      ''Is there anything specific you'd like help with?'',
      ''Thank you for calling. How else can I assist you today?'']"

definition mock_generate_response :: "voice_ai \<Rightarrow> string \<Rightarrow> string \<times> voice_ai" where
  "mock_generate_response s user_input =
     (let response = responses ! (response_index s mod length responses)
      in (response, s\<lparr>response_index := response_index s + 1\<rparr>))"

section \<open>VoiceAI\<close>

definition system_prompt :: string where
  "system_prompt =
     ''You are a helpful customer service representative.\<newline>'' @
     ''            Be polite, professional, and concise. Keep responses under 40 words.\<newline>'' @
     ''            If you don't know something, offer to connect them with a specialist.''"

definition recent_history :: "string list \<Rightarrow> string list" where
  "recent_history history = slice_from (- 6) history"

definition build_prompt :: "string list \<Rightarrow> string" where
  "build_prompt history =
     (let context = join ''\<newline>'' (recent_history history)
      in system_prompt @ ''\<newline>\<newline>Conversation:\<newline>'' @ context @ ''\<newline>Assistant:'')"

definition fallback_reply :: string where
  "fallback_reply = ''I understand. How else can I help you?''"

definition apology_reply :: string where
  "apology_reply = ''I apologize for the technical difficulty. How can I assist you?''"

definition clean_response :: "string \<Rightarrow> string" where
  "clean_response decoded =
     (let response = replace ''Assistant:'' '''' (strip decoded)
      in if response = [] \<or> length response < 3 then fallback_reply else response)"

text \<open>
  \<open>self.active_calls[conversation_id]['history']\<close>, after the entry has been created
  with an empty history when the key was missing.
\<close>

definition call_history :: "voice_ai \<Rightarrow> string option \<Rightarrow> string list" where
  "call_history s cid = (case active_calls s cid of None \<Rightarrow> [] | Some h \<Rightarrow> h)"

text \<open>
  \<open>_generate_llm_response\<close>. The whole body is inside \<open>try\<close>; the customer line is
  already in the history when the model call raises, and the handler returns the
  apology without adding an assistant line. Without a loaded tokenizer the call of
  \<open>self.tokenizer.encode\<close> raises, inside the same \<open>try\<close>.
\<close>

definition generate_llm_response ::
  "voice_ai \<Rightarrow> env \<Rightarrow> string \<Rightarrow> string option \<Rightarrow> string \<times> voice_ai" where
  "generate_llm_response s e user_input cid =
     (let history = call_history s cid @ [''Customer: '' @ user_input];
          s1 = s\<lparr>active_calls := (active_calls s)(cid \<mapsto> history)\<rparr>;
          prompt = build_prompt history
      in case (if llm_loaded s then llm_decode e prompt else Inl Exception) of
           Inl err \<Rightarrow> (apology_reply, s1)
         | Inr decoded \<Rightarrow>
             (let response = clean_response decoded
              in (response,
                  s1\<lparr>active_calls :=
                       (active_calls s1)(cid \<mapsto> history @ [''Assistant: '' @ response])\<rparr>)))"

definition generate_response ::
  "voice_ai \<Rightarrow> env \<Rightarrow> string \<Rightarrow> string option \<Rightarrow> string \<times> voice_ai" where
  "generate_response s e user_input cid =
     (if demo_mode s then
        (if llm_loaded s then generate_llm_response s e user_input cid
         else mock_generate_response s user_input)
      else generate_llm_response s e user_input cid)"

text \<open>\<open>not conversation_id\<close> holds for \<open>None\<close> and for the empty string.\<close>

definition session_id :: "env \<Rightarrow> string option \<Rightarrow> string" where
  "session_id e cid =
     (case cid of
        None \<Rightarrow> ''demo_'' @ str_int (epoch_seconds e)
      | Some c \<Rightarrow> if c = [] then ''demo_'' @ str_int (epoch_seconds e) else c)"

definition make_message :: "string \<Rightarrow> string \<Rightarrow> string \<Rightarrow> message" where
  "make_message ts who text =
     [(''timestamp'', ts), (''speaker'', who), (''message'', text), (''type'', ''text'')]"

definition process_demo_conversation ::
  "voice_ai \<Rightarrow> env \<Rightarrow> string \<Rightarrow> string option \<Rightarrow> error + (result \<times> voice_ai)" where
  "process_demo_conversation s e user_input cid_opt =
     (let cid = session_id e cid_opt;
          convs = (if demo_conversations s cid = None
                   then (demo_conversations s)(cid \<mapsto> [])
                   else demo_conversations s);
          user_msg = make_message (user_timestamp e) ''user'' user_input
      in case convs cid of
           None \<Rightarrow> Inl KeyError
         | Some t \<Rightarrow>
             (let s1 = s\<lparr>demo_conversations := convs(cid \<mapsto> t @ [user_msg])\<rparr>;
                  (ai_text, s2) = generate_response s1 e user_input (Some cid);
                  ai_msg = make_message (ai_timestamp e) ''ai'' ai_text
              in case demo_conversations s2 cid of
                   None \<Rightarrow> Inl KeyError
                 | Some t2 \<Rightarrow>
                     (let s3 = s2\<lparr>demo_conversations :=
                                    (demo_conversations s2)(cid \<mapsto> t2 @ [ai_msg])\<rparr>
                      in case demo_conversations s3 cid of
                           None \<Rightarrow> Inl KeyError
                         | Some h \<Rightarrow>
                             Inr (\<lparr>conversation_id = cid, user_message = user_msg,
                                   ai_response = ai_msg, conversation_history = h\<rparr>, s3))))"

section \<open>Sessions and sequences of requests\<close>

text \<open>
  The object after \<open>VoiceAI.__init__\<close>: both dicts empty and the mock counter at 0;
  the two flags come from the environment of the process.
\<close>

definition voice_ai_init :: "bool \<Rightarrow> bool \<Rightarrow> voice_ai" where
  "voice_ai_init dm ll =
     \<lparr>demo_mode = dm, llm_loaded = ll, response_index = 0,
      active_calls = Map.empty, demo_conversations = Map.empty\<rparr>"

text \<open>The turns recorded for a session so far; none when the id is not a key yet.\<close>

definition full_transcript :: "voice_ai \<Rightarrow> string \<Rightarrow> message list" where
  "full_transcript s cid = (case demo_conversations s cid of None \<Rightarrow> [] | Some t \<Rightarrow> t)"

text \<open>The two turns that one call records, in the order it appends them.\<close>

definition turns :: "result \<Rightarrow> message list" where
  "turns r = [user_message r, ai_response r]"

text \<open>\<open>m["message"]\<close> of a turn.\<close>

definition message_text :: "message \<Rightarrow> string option" where
  "message_text m = map_of m ''message''"

text \<open>
  Successive calls of \<open>process_demo_conversation\<close> on the one \<open>voice_ai\<close> object, as
  the \<open>/demo/chat\<close> route makes them; a request is the environment of the call, the
  \<open>user_input\<close> and the optional \<open>conversation_id\<close>.
\<close>

type_synonym request = "env \<times> string \<times> string option"

fun run :: "voice_ai \<Rightarrow> request list \<Rightarrow> error + (result list \<times> voice_ai)" where
  "run s [] = Inr ([], s)"
| "run s ((e, user_input, cid) # reqs) =
     (case process_demo_conversation s e user_input cid of
        Inl err \<Rightarrow> Inl err
      | Inr (r, s1) \<Rightarrow>
          (case run s1 reqs of
             Inl err \<Rightarrow> Inl err
           | Inr (rs, s2) \<Rightarrow> Inr (r # rs, s2)))"

text \<open>
  Concrete environments for the examples below: a clock at second 1700000000 with a
  model that decodes to the empty string, a later call in that same second with a
  model that raises, and the first environment again with a model that raises.
\<close>

definition sample_env :: env where
  "sample_env =
     \<lparr>epoch_seconds = 1700000000,
      user_timestamp = ''2023-11-14T22:13:20.000100'',
      ai_timestamp = ''2023-11-14T22:13:20.000200'',
      llm_decode = (\<lambda>prompt. Inr '''')\<rparr>"

definition sample_env_later :: env where
  "sample_env_later =
     \<lparr>epoch_seconds = 1700000000,
      user_timestamp = ''2023-11-14T22:13:20.700100'',
      ai_timestamp = ''2023-11-14T22:13:20.700200'',
      llm_decode = (\<lambda>prompt. Inl Exception)\<rparr>"

definition sample_env_raise :: env where
  "sample_env_raise = sample_env\<lparr>llm_decode := (\<lambda>prompt. Inl Exception)\<rparr>"

text \<open>
  What a turn of a transcript carries: the speaker is one of the two strings the code
  writes (\<open>"user"\<close>, and \<open>"ai"\<close> for the assistant), the type tag is \<open>"text"\<close>, and the
  key \<open>"timestamp"\<close> is present.
\<close>

definition well_formed_turn :: "message \<Rightarrow> bool" where
  "well_formed_turn m =
     ((map_of m ''speaker'' = Some ''user'' \<or> map_of m ''speaker'' = Some ''ai'') \<and>
      map_of m ''type'' = Some ''text'' \<and>
      map_of m ''timestamp'' \<noteq> None)"

text \<open>Three requests: two sessions, the first one continued by its id.\<close>

definition sample_requests :: "request list" where
  "sample_requests =
     [(sample_env, ''Hello'', None),
      (sample_env_later, ''Hi'', Some ''other''),
      (sample_env_later, ''Can you help?'', Some ''demo_1700000000'')]"



section \<open>Library facts\<close>

lemma str_nat_digit: "n < 10 \<Longrightarrow> str_nat n = [digit_char n]"
  by (simp add: str_nat.simps)

lemma str_nat_more:
  "\<not> n < 10 \<Longrightarrow> str_nat n = str_nat (n div 10) @ [digit_char (n mod 10)]"
  by (subst str_nat.simps) simp

lemma str_nat_nonempty: "str_nat n \<noteq> []"
  by (subst str_nat.simps) simp

lemma length_strip: "length (strip s) \<le> length s"
proof -
  have "length (strip s) \<le> length (dropWhile isspace s)"
    using length_dropWhile_le [of isspace "rev (dropWhile isspace s)"]
    by (simp add: strip_def)
  also have "\<dots> \<le> length s"
    by (rule length_dropWhile_le)
  finally show ?thesis .
qed

lemma length_replace_empty: "old \<noteq> [] \<Longrightarrow> length (replace old [] s) \<le> length s"
proof (induction "length s" arbitrary: s rule: less_induct)
  case less
  show ?case
  proof (cases "s = []")
    case True
    with less.prems show ?thesis by (simp add: replace.simps)
  next
    case False
    show ?thesis
    proof (cases "prefix old s")
      case True
      from False less.prems have "length (drop (length old) s) < length s"
        by simp
      then have "length (replace old [] (drop (length old) s)) \<le> length (drop (length old) s)"
        using less.prems by (rule less.hyps)
      with less.prems False True show ?thesis
        by (subst replace.simps) simp
    next
      case np: False
      from False have "length (tl s) < length s"
        by simp
      then have "length (replace old [] (tl s)) \<le> length (tl s)"
        using less.prems by (rule less.hyps)
      with less.prems False np show ?thesis
        by (subst replace.simps) (cases s; simp)
    qed
  qed
qed

lemma length_responses: "length responses = 7"
  by (simp add: responses_def)

section \<open>One call and sequences of calls\<close>

lemma generate_response_frame:
  "demo_conversations (snd (generate_response s e u c)) = demo_conversations s"
  "demo_mode (snd (generate_response s e u c)) = demo_mode s"
  "llm_loaded (snd (generate_response s e u c)) = llm_loaded s"
  by (simp_all add: generate_response_def generate_llm_response_def mock_generate_response_def
      Let_def split: sum.splits)

lemma process_demo_conversation_eq:
  fixes s e u co
  defines "cid \<equiv> session_id e co"
  defines "um \<equiv> make_message (user_timestamp e) ''user'' u"
  defines "s1 \<equiv> s\<lparr>demo_conversations := (demo_conversations s)(cid \<mapsto> full_transcript s cid @ [um])\<rparr>"
  defines "g \<equiv> generate_response s1 e u (Some cid)"
  defines "am \<equiv> make_message (ai_timestamp e) ''ai'' (fst g)"
  shows "process_demo_conversation s e u co =
    Inr (\<lparr>conversation_id = cid, user_message = um, ai_response = am,
          conversation_history = full_transcript s cid @ [um, am]\<rparr>,
         (snd g)\<lparr>demo_conversations := (demo_conversations s)(cid \<mapsto> full_transcript s cid @ [um, am])\<rparr>)"
proof -
  have convs: "demo_conversations (snd g) = (demo_conversations s)(cid \<mapsto> full_transcript s cid @ [um])"
    unfolding g_def by (simp add: generate_response_frame s1_def)
  obtain reply s2 where g: "generate_response s1 e u (Some cid) = (reply, s2)"
    by (cases "generate_response s1 e u (Some cid)")
  show ?thesis
    using convs g
    unfolding process_demo_conversation_def g_def am_def s1_def full_transcript_def
      cid_def[symmetric] um_def[symmetric]
    by (cases "demo_conversations s cid") (simp_all add: Let_def)
qed

lemma full_transcript_step:
  "full_transcript (s'\<lparr>demo_conversations := (demo_conversations s)(cid \<mapsto> t)\<rparr>) c =
     (if c = cid then t else full_transcript s c)"
  by (simp add: full_transcript_def)

lemma process_demo_conversation_step:
  obtains r s' reply where
    "process_demo_conversation s e user_input cid = Inr (r, s')"
    "conversation_id r = session_id e cid"
    "user_message r = make_message (user_timestamp e) ''user'' user_input"
    "ai_response r = make_message (ai_timestamp e) ''ai'' reply"
    "conversation_history r =
       full_transcript s (conversation_id r) @ [user_message r, ai_response r]"
    "\<forall>c. full_transcript s' c =
       (if c = conversation_id r then conversation_history r else full_transcript s c)"
proof -
  let ?s1 = "s\<lparr>demo_conversations := (demo_conversations s)
      (session_id e cid \<mapsto> full_transcript s (session_id e cid) @
         [make_message (user_timestamp e) ''user'' user_input])\<rparr>"
  let ?reply = "fst (generate_response ?s1 e user_input (Some (session_id e cid)))"
  show thesis
    by (rule that [OF process_demo_conversation_eq, of ?reply])
      (simp_all add: full_transcript_step)
qed

lemma responses_nonempty: "responses ! (i mod 7) \<noteq> []"
proof -
  have "\<forall>r \<in> set responses. r \<noteq> []"
    by (simp add: responses_def)
  moreover have "responses ! (i mod 7) \<in> set responses"
    by (rule nth_mem) (simp add: length_responses)
  ultimately show ?thesis by blast
qed

lemma clean_response_nonempty: "clean_response g \<noteq> []"
  by (simp add: clean_response_def Let_def fallback_reply_def)

lemma clean_response_short: "length g < 3 \<Longrightarrow> clean_response g = fallback_reply"
proof -
  assume short: "length g < 3"
  have "length (replace ''Assistant:'' [] (strip g)) \<le> length (strip g)"
    by (rule length_replace_empty) simp
  also have "\<dots> \<le> length g"
    by (rule length_strip)
  finally have "length (replace ''Assistant:'' [] (strip g)) < 3"
    using short by simp
  then show ?thesis
    by (simp add: clean_response_def Let_def)
qed

lemma generate_response_nonempty: "fst (generate_response s e u c) \<noteq> []"
  by (simp add: generate_response_def generate_llm_response_def mock_generate_response_def
      Let_def length_responses responses_nonempty clean_response_nonempty apology_reply_def
      split: sum.splits)

lemma run_total:
  "\<exists>rs s'. run s reqs = Inr (rs, s') \<and> length rs = length reqs \<and>
     demo_mode s' = demo_mode s \<and> llm_loaded s' = llm_loaded s \<and>
     (\<forall>c. full_transcript s' c =
        full_transcript s c @ concat (map turns (filter (\<lambda>r. conversation_id r = c) rs)))"
proof (induction reqs arbitrary: s)
  case Nil
  show ?case by simp
next
  case (Cons q reqs)
  obtain e u co where q: "q = (e, u, co)"
    by (cases q)
  obtain r s1 where step: "process_demo_conversation s e u co = Inr (r, s1)"
    and hist: "conversation_history r = full_transcript s (conversation_id r) @ turns r"
    and convs: "\<forall>c. full_transcript s1 c = (if c = conversation_id r then conversation_history r else full_transcript s c)"
    and flags: "demo_mode s1 = demo_mode s" "llm_loaded s1 = llm_loaded s"
    using process_demo_conversation_eq [of s e u co]
    by (simp add: turns_def full_transcript_step generate_response_frame)
  from Cons.IH [of s1] obtain rs s2 where rest: "run s1 reqs = Inr (rs, s2)"
    and len: "length rs = length reqs"
    and flags2: "demo_mode s2 = demo_mode s1" "llm_loaded s2 = llm_loaded s1"
    and tr: "\<forall>c. full_transcript s2 c =
        full_transcript s1 c @ concat (map turns (filter (\<lambda>r. conversation_id r = c) rs))"
    by blast
  have "run s (q # reqs) = Inr (r # rs, s2)"
    using q step rest by simp
  moreover have "\<forall>c. full_transcript s2 c =
        full_transcript s c @ concat (map turns (filter (\<lambda>x. conversation_id x = c) (r # rs)))"
    using tr convs hist by simp
  ultimately show ?case
    using len flags flags2 by simp
qed

lemma str_int_sample: "str_int 1700000000 = ''1700000000''"
  by (simp add: str_int_def str_nat_digit str_nat_more digit_char_def)

section \<open>The minted session id\<close>

text \<open>
  Claim C7. When no conversation id is supplied (\<open>None\<close>, or the empty string, which
  \<open>not conversation_id\<close> treats alike), the call succeeds and the id it returns is
  exactly \<open>"demo_"\<close> followed by the decimal seconds since the epoch. Hence any other
  call without an id whose clock shows the same second, on any state, returns the
  same id: the scheme is not collision-free.
\<close>

theorem minted_session_id:
  assumes "cid = None \<or> cid = Some []"
  shows "\<exists>r s'. process_demo_conversation s e user_input cid = Inr (r, s') \<and>
           conversation_id r = ''demo_'' @ str_int (epoch_seconds e) \<and>
           (\<forall>s2 e2 user_input2. epoch_seconds e2 = epoch_seconds e \<longrightarrow>
              (\<exists>r2 s2'. process_demo_conversation s2 e2 user_input2 cid = Inr (r2, s2') \<and>
                 conversation_id r2 = conversation_id r))"
  using assms by (auto simp add: process_demo_conversation_eq session_id_def)

theorem minted_session_id_witness:
  "\<exists>r s'. process_demo_conversation (voice_ai_init True False) sample_env ''Hello'' None = Inr (r, s') \<and>
     conversation_id r = ''demo_1700000000'' \<and>
     (\<exists>r2 s2'. process_demo_conversation s' sample_env_later ''Hi'' None = Inr (r2, s2') \<and>
        conversation_id r2 = ''demo_1700000000'')"
proof -
  have same: "epoch_seconds sample_env_later = epoch_seconds sample_env"
    by (simp add: sample_env_def sample_env_later_def)
  have secs: "''demo_'' @ str_int (epoch_seconds sample_env) = ''demo_1700000000''"
    by (simp add: sample_env_def str_int_sample)
  from minted_session_id [of None "voice_ai_init True False" sample_env "''Hello''"]
  obtain r s' where
    r: "process_demo_conversation (voice_ai_init True False) sample_env ''Hello'' None = Inr (r, s')"
    and cid: "conversation_id r = ''demo_'' @ str_int (epoch_seconds sample_env)"
    and all: "\<forall>s2 e2 user_input2. epoch_seconds e2 = epoch_seconds sample_env \<longrightarrow>
              (\<exists>r2 s2'. process_demo_conversation s2 e2 user_input2 None = Inr (r2, s2') \<and>
                 conversation_id r2 = conversation_id r)"
    by blast
  from all same obtain r2 s2' where
    "process_demo_conversation s' sample_env_later ''Hi'' None = Inr (r2, s2')"
    "conversation_id r2 = conversation_id r"
    by blast
  with r cid secs show ?thesis
    by simp
qed

section \<open>Empty input\<close>

text \<open>
  Claim C6. The empty string is accepted as \<open>user_input\<close> without validation: on
  every state, with every clock and model and with or without a conversation id, the
  call succeeds, the user turn it appends has the empty string as its text, the
  assistant turn appended after it has a non-empty text, and both are at the end of
  the session's transcript.
\<close>

theorem empty_input_accepted:
  "\<exists>r s'. process_demo_conversation s e [] cid = Inr (r, s') \<and>
     map_of (user_message r) ''speaker'' = Some ''user'' \<and>
     message_text (user_message r) = Some [] \<and>
     map_of (ai_response r) ''speaker'' = Some ''ai'' \<and>
     (\<exists>reply. message_text (ai_response r) = Some reply \<and> reply \<noteq> []) \<and>
     full_transcript s' (conversation_id r) =
       full_transcript s (conversation_id r) @ [user_message r, ai_response r]"
  by (simp add: process_demo_conversation_eq make_message_def message_text_def
      full_transcript_step generate_response_nonempty)

section \<open>Degenerate output of the model\<close>

lemma call_history_convs [simp]:
  "call_history (s\<lparr>demo_conversations := m\<rparr>) cid = call_history s cid"
  by (simp add: call_history_def)

lemma generate_response_llm:
  "llm_loaded s \<Longrightarrow>
   fst (generate_response s e user_input cid) =
     (case llm_decode e (build_prompt (call_history s cid @ [''Customer: '' @ user_input])) of
        Inl err \<Rightarrow> apology_reply
      | Inr decoded \<Rightarrow> clean_response decoded)"
  by (simp add: generate_response_def generate_llm_response_def Let_def split: sum.splits)

lemma generate_response_llm_history:
  "llm_loaded s \<Longrightarrow>
   call_history (snd (generate_response s e user_input cid)) cid =
     (case llm_decode e (build_prompt (call_history s cid @ [''Customer: '' @ user_input])) of
        Inl err \<Rightarrow> call_history s cid @ [''Customer: '' @ user_input]
      | Inr decoded \<Rightarrow>
          call_history s cid @ [''Customer: '' @ user_input,
                                ''Assistant: '' @ clean_response decoded])"
  by (simp add: generate_response_def generate_llm_response_def Let_def call_history_def
      split: sum.splits)

text \<open>
  Claim C4. Every call records an assistant turn whose text is non-empty, and it is
  the last turn of the session's transcript. When the model is loaded and what it
  decodes for the prompt of this call is shorter than 3 characters (the empty string
  included), that text is the fixed fallback reply.
\<close>

theorem short_output_fallback:
  "\<exists>r s' reply. process_demo_conversation s e user_input cid = Inr (r, s') \<and>
     message_text (ai_response r) = Some reply \<and> reply \<noteq> [] \<and>
     last (full_transcript s' (conversation_id r)) = ai_response r \<and>
     (\<forall>decoded. llm_loaded s \<and>
        llm_decode e (build_prompt (call_history s (Some (session_id e cid)) @
                                    [''Customer: '' @ user_input])) = Inr decoded \<and>
        length decoded < 3 \<longrightarrow> reply = fallback_reply)"
  by (auto simp add: process_demo_conversation_eq make_message_def message_text_def
      full_transcript_step generate_response_nonempty generate_response_llm
      clean_response_short)

theorem short_output_fallback_witness:
  "\<exists>r s'. process_demo_conversation (voice_ai_init True True) sample_env ''Hello'' None = Inr (r, s') \<and>
     message_text (ai_response r) = Some ''I understand. How else can I help you?''"
proof -
  have loaded: "llm_loaded (voice_ai_init True True)"
    by (simp add: voice_ai_init_def)
  have dec: "llm_decode sample_env p = Inr []" for p
    by (simp add: sample_env_def)
  from short_output_fallback [of "voice_ai_init True True" sample_env "''Hello''" None]
  obtain r s' reply where
    "process_demo_conversation (voice_ai_init True True) sample_env ''Hello'' None = Inr (r, s')"
    "message_text (ai_response r) = Some reply"
    "\<forall>decoded. llm_loaded (voice_ai_init True True) \<and>
        llm_decode sample_env (build_prompt (call_history (voice_ai_init True True)
            (Some (session_id sample_env None)) @ [''Customer: '' @ ''Hello''])) = Inr decoded \<and>
        length decoded < 3 \<longrightarrow> reply = fallback_reply"
    by blast
  with loaded dec show ?thesis
    by (simp add: fallback_reply_def)
qed

section \<open>A model call that raises\<close>

text \<open>
  Claim C5, as stated, fails: with the same state, clock and input, a model call that
  raises and a model call that decodes to the empty string give different recorded
  replies, so the two cases are not handled identically.
\<close>

theorem raise_handled_differently:
  "message_text (ai_response (fst (projr (process_demo_conversation
       (voice_ai_init True True) sample_env_raise ''Hello'' (Some ''c1''))))) =
     Some ''I apologize for the technical difficulty. How can I assist you?'' \<and>
   message_text (ai_response (fst (projr (process_demo_conversation
       (voice_ai_init True True) sample_env ''Hello'' (Some ''c1''))))) =
     Some ''I understand. How else can I help you?'' \<and>
   call_history (snd (projr (process_demo_conversation
       (voice_ai_init True True) sample_env_raise ''Hello'' (Some ''c1'')))) (Some ''c1'') \<noteq>
   call_history (snd (projr (process_demo_conversation
       (voice_ai_init True True) sample_env ''Hello'' (Some ''c1'')))) (Some ''c1'')"
proof -
  have loaded: "llm_loaded (voice_ai_init True True)"
    by (simp add: voice_ai_init_def)
  have empty: "clean_response [] = fallback_reply"
    by (rule clean_response_short) simp
  have fresh: "call_history (voice_ai_init True True) (Some ''c1'') = []"
    by (simp add: call_history_def voice_ai_init_def)
  show ?thesis
    using loaded empty fresh
    by (simp add: process_demo_conversation_eq make_message_def message_text_def
        generate_response_llm generate_response_llm_history generate_response_frame
        session_id_def
        sample_env_raise_def sample_env_def apology_reply_def fallback_reply_def)
qed

text \<open>
  Claim C5, amended. When the model is loaded and its call for the prompt of this
  call raises, the exception does not leave \<open>process_demo_conversation\<close>: the call
  returns, the assistant turn it records (the last of the transcript) carries the
  fixed, non-empty apology, which is another string than the fallback of the
  degenerate case, and the history of the conversation gains the customer line only.
\<close>

theorem generator_raise_recovered:
  assumes "llm_loaded s"
    and "llm_decode e (build_prompt (call_history s (Some (session_id e cid)) @
                                     [''Customer: '' @ user_input])) = Inl err"
  shows "\<exists>r s'. process_demo_conversation s e user_input cid = Inr (r, s') \<and>
           message_text (ai_response r) = Some apology_reply \<and>
           apology_reply \<noteq> [] \<and> apology_reply \<noteq> fallback_reply \<and>
           last (full_transcript s' (conversation_id r)) = ai_response r \<and>
           call_history s' (Some (conversation_id r)) =
             call_history s (Some (conversation_id r)) @ [''Customer: '' @ user_input]"
  using assms
  by (simp add: process_demo_conversation_eq make_message_def message_text_def
      full_transcript_step generate_response_llm generate_response_llm_history
      generate_response_frame)
    (simp add: apology_reply_def fallback_reply_def)

theorem generator_raise_recovered_witness:
  "\<exists>r s'. process_demo_conversation (voice_ai_init True True) sample_env_raise ''Hello''
       (Some ''c1'') = Inr (r, s') \<and>
     message_text (ai_response r) =
       Some ''I apologize for the technical difficulty. How can I assist you?'' \<and>
     call_history s' (Some ''c1'') = [''Customer: Hello'']"
proof -
  have loaded: "llm_loaded (voice_ai_init True True)"
    by (simp add: voice_ai_init_def)
  have raises: "llm_decode sample_env_raise p = Inl Exception" for p
    by (simp add: sample_env_raise_def)
  have cid: "session_id sample_env_raise (Some ''c1'') = ''c1''"
    by (simp add: session_id_def)
  have "call_history (voice_ai_init True True) (Some ''c1'') = []"
    by (simp add: call_history_def voice_ai_init_def)
  with generator_raise_recovered [where s = "voice_ai_init True True" and e = sample_env_raise
      and cid = "Some ''c1''" and user_input = "''Hello''" and err = Exception] loaded raises cid
  show ?thesis
    by (auto simp add: apology_reply_def process_demo_conversation_eq)
qed

section \<open>Session ids\<close>

lemma session_id_nonempty: "session_id e cid \<noteq> []"
  by (cases cid) (simp_all add: session_id_def)

text \<open>
  Claim C3, as stated, fails in its first part: the id returned to a call without an
  id need not be fresh. Two calls without an id in the same second: the second one
  gets an id that is already a key of \<open>demo_conversations\<close>, and its utterance lands
  in the transcript of the first, which then has four turns.
\<close>

theorem minted_id_not_fresh:
  "demo_conversations
     (snd (projr (process_demo_conversation (voice_ai_init True False) sample_env ''Hello'' None)))
     (conversation_id (fst (projr (process_demo_conversation
        (snd (projr (process_demo_conversation (voice_ai_init True False) sample_env ''Hello'' None)))
        sample_env_later ''Hi'' None)))) \<noteq> None \<and>
   length (conversation_history (fst (projr (process_demo_conversation
        (snd (projr (process_demo_conversation (voice_ai_init True False) sample_env ''Hello'' None)))
        sample_env_later ''Hi'' None)))) = 4"
proof -
  have id1: "session_id sample_env None = ''demo_1700000000''"
    by (simp add: session_id_def sample_env_def str_int_sample)
  have id2: "session_id sample_env_later None = ''demo_1700000000''"
    by (simp add: session_id_def sample_env_later_def str_int_sample)
  have none: "full_transcript (voice_ai_init True False) ''demo_1700000000'' = []"
    by (simp add: full_transcript_def voice_ai_init_def)
  show ?thesis
    by (simp add: process_demo_conversation_eq id1 id2 none full_transcript_step)
qed

text \<open>
  Claim C3, amended. A call never fails, whatever the id. Without an id (or with the
  empty string) it returns a non-empty id, \<open>"demo_"\<close> and the seconds, which is fresh
  if no session has that id yet; with a non-empty id it returns that id. In every
  case the two new turns are appended to the transcript that the returned id had
  before the call, which is empty when the id was unknown, the session exists
  afterwards, and no other session changes.
\<close>

theorem session_id_handling:
  "\<exists>r s'. process_demo_conversation s e user_input cid = Inr (r, s') \<and>
     conversation_id r \<noteq> [] \<and>
     (cid = None \<or> cid = Some [] \<longrightarrow>
        conversation_id r = ''demo_'' @ str_int (epoch_seconds e)) \<and>
     (\<forall>c. cid = Some c \<and> c \<noteq> [] \<longrightarrow> conversation_id r = c) \<and>
     conversation_history r =
       full_transcript s (conversation_id r) @ [user_message r, ai_response r] \<and>
     (demo_conversations s (conversation_id r) = None \<longrightarrow>
        conversation_history r = [user_message r, ai_response r]) \<and>
     demo_conversations s' (conversation_id r) = Some (conversation_history r) \<and>
     (\<forall>c. c \<noteq> conversation_id r \<longrightarrow> demo_conversations s' c = demo_conversations s c)"
proof -
  have minted: "cid = None \<or> cid = Some [] \<longrightarrow>
      session_id e cid = ''demo_'' @ str_int (epoch_seconds e)"
    by (auto simp add: session_id_def)
  have given: "\<forall>c. cid = Some c \<and> c \<noteq> [] \<longrightarrow> session_id e cid = c"
    by (simp add: session_id_def)
  show ?thesis
    using minted given session_id_nonempty [of e cid]
    by (simp add: process_demo_conversation_eq full_transcript_def)
qed

theorem session_id_handling_witness:
  "\<exists>r s' r2 s2. process_demo_conversation (voice_ai_init True False) sample_env ''Hello'' None
       = Inr (r, s') \<and>
     conversation_id r = ''demo_1700000000'' \<and>
     length (conversation_history r) = 2 \<and>
     process_demo_conversation s' sample_env_later ''Can you help?'' (Some ''demo_1700000000'')
       = Inr (r2, s2) \<and>
     conversation_id r2 = ''demo_1700000000'' \<and>
     conversation_history r2 = conversation_history r @ [user_message r2, ai_response r2]"
proof -
  have fresh: "demo_conversations (voice_ai_init True False) c = None" for c
    by (simp add: voice_ai_init_def)
  from session_id_handling [of "voice_ai_init True False" sample_env "''Hello''" None]
  obtain r s' where
    one: "process_demo_conversation (voice_ai_init True False) sample_env ''Hello'' None = Inr (r, s')"
    and id1: "(None :: string option) = None \<or> (None :: string option) = Some [] \<longrightarrow>
        conversation_id r = ''demo_'' @ str_int (epoch_seconds sample_env)"
    and h1: "demo_conversations (voice_ai_init True False) (conversation_id r) = None \<longrightarrow>
        conversation_history r = [user_message r, ai_response r]"
    and st1: "demo_conversations s' (conversation_id r) = Some (conversation_history r)"
    by (elim exE conjE) (rule that, assumption+)
  have id1': "conversation_id r = ''demo_1700000000''"
    using id1 by (simp add: sample_env_def str_int_sample)
  from session_id_handling [of s' sample_env_later "''Can you help?''" "Some ''demo_1700000000''"]
  obtain r2 s2 where
    two: "process_demo_conversation s' sample_env_later ''Can you help?'' (Some ''demo_1700000000'')
       = Inr (r2, s2)"
    and id2: "\<forall>c. Some ''demo_1700000000'' = Some c \<and> c \<noteq> [] \<longrightarrow> conversation_id r2 = c"
    and h2: "conversation_history r2 =
       full_transcript s' (conversation_id r2) @ [user_message r2, ai_response r2]"
    by (elim exE conjE) (rule that, assumption+)
  from id2 have id2': "conversation_id r2 = ''demo_1700000000''"
    by simp
  from h1 fresh have len: "length (conversation_history r) = 2"
    by simp
  from h2 st1 id1' id2' have app:
    "conversation_history r2 = conversation_history r @ [user_message r2, ai_response r2]"
    by (simp add: full_transcript_def)
  show ?thesis
    by (intro exI conjI) (rule one, rule id1', rule len, rule two, rule id2', rule app)
qed

section \<open>The transcript is append-only\<close>

lemma run_snoc:
  "run s (reqs @ [(e, user_input, cid)]) =
     (case run s reqs of
        Inl err \<Rightarrow> Inl err
      | Inr (rs, s1) \<Rightarrow>
          (case process_demo_conversation s1 e user_input cid of
             Inl err \<Rightarrow> Inl err
           | Inr (r, s2) \<Rightarrow> Inr (rs @ [r], s2)))"
  by (induction s reqs rule: run.induct) (simp_all split: sum.splits prod.splits)

lemma run_ids:
  "run s reqs = Inr (rs, s') \<Longrightarrow>
   map conversation_id rs = map (\<lambda>(e, user_input, cid). session_id e cid) reqs"
proof (induction s reqs arbitrary: rs rule: run.induct)
  case (1 s)
  then show ?case by simp
next
  case (2 s e user_input cid reqs)
  obtain r s1 where step: "process_demo_conversation s e user_input cid = Inr (r, s1)"
    and cid: "conversation_id r = session_id e cid"
    using process_demo_conversation_eq [of s e user_input cid] by simp
  from "2.prems" step obtain rs' where rest: "run s1 reqs = Inr (rs', s')" and rs: "rs = r # rs'"
    by (auto split: sum.splits)
  from "2.IH" [OF step refl rest] cid rs show ?case
    by simp
qed

lemma length_concat_turns: "length (concat (map turns rs)) = 2 * length rs"
  by (induction rs) (simp_all add: turns_def)

text \<open>
  Claim C1. Take any state and any sequence of calls, on any sessions, ending in a
  call that returns the result \<open>r\<close>. Every call succeeds, and the
  \<open>conversation_history\<close> of \<open>r\<close> is the transcript its session had at the start
  followed by exactly the turns recorded on that session by the calls of the
  sequence, two per call, in the order of the calls; nothing is removed or reordered.
  The same holds for the stored transcript of every session, and the history returned
  is the stored transcript of its session.
\<close>

theorem transcript_append_only:
  "\<exists>rs r s'. run s (reqs @ [(e, user_input, cid)]) = Inr (rs @ [r], s') \<and>
     length rs = length reqs \<and>
     conversation_history r =
       full_transcript s (conversation_id r) @
       concat (map turns (filter (\<lambda>x. conversation_id x = conversation_id r) (rs @ [r]))) \<and>
     full_transcript s' (conversation_id r) = conversation_history r \<and>
     (\<forall>c. full_transcript s' c =
        full_transcript s c @
        concat (map turns (filter (\<lambda>x. conversation_id x = c) (rs @ [r])))) \<and>
     (\<forall>c. length (full_transcript s' c) =
        length (full_transcript s c) +
        2 * length (filter (\<lambda>x. conversation_id x = c) (rs @ [r])))"
proof -
  from run_total [of s reqs] obtain rs s1 where
    pre: "run s reqs = Inr (rs, s1)" and len: "length rs = length reqs"
    and tr: "\<forall>c. full_transcript s1 c =
        full_transcript s c @ concat (map turns (filter (\<lambda>r. conversation_id r = c) rs))"
    by (elim exE conjE) (rule that, assumption+)
  obtain r s' where step: "process_demo_conversation s1 e user_input cid = Inr (r, s')"
    and hist: "conversation_history r = full_transcript s1 (conversation_id r) @ turns r"
    and convs: "\<forall>c. full_transcript s' c =
        (if c = conversation_id r then conversation_history r else full_transcript s1 c)"
    using process_demo_conversation_eq [of s1 e user_input cid]
    by (simp add: turns_def full_transcript_step)
  have whole: "run s (reqs @ [(e, user_input, cid)]) = Inr (rs @ [r], s')"
    by (simp add: run_snoc pre step)
  have all: "\<forall>c. full_transcript s' c =
        full_transcript s c @
        concat (map turns (filter (\<lambda>x. conversation_id x = c) (rs @ [r])))"
    using tr convs hist by simp
  have lens: "\<forall>c. length (full_transcript s' c) =
        length (full_transcript s c) +
        2 * length (filter (\<lambda>x. conversation_id x = c) (rs @ [r]))"
  proof
    fix c
    have "length (full_transcript s' c) =
        length (full_transcript s c) +
        length (concat (map turns (filter (\<lambda>x. conversation_id x = c) (rs @ [r]))))"
      using all by (simp del: filter_append map_append concat_append)
    then show "length (full_transcript s' c) =
        length (full_transcript s c) +
        2 * length (filter (\<lambda>x. conversation_id x = c) (rs @ [r]))"
      by (simp only: length_concat_turns)
  qed
  have same: "full_transcript s' (conversation_id r) = conversation_history r"
    using convs by simp
  have main: "conversation_history r =
       full_transcript s (conversation_id r) @
       concat (map turns (filter (\<lambda>x. conversation_id x = conversation_id r) (rs @ [r])))"
    using all [rule_format, of "conversation_id r"] same by simp
  show ?thesis
    by (intro exI conjI) (rule whole, rule len, rule main, rule same, rule all, rule lens)
qed

theorem transcript_append_only_witness:
  "\<exists>rs r s'. run (voice_ai_init True False) sample_requests = Inr (rs @ [r], s') \<and>
     length rs = 2 \<and>
     conversation_id r = ''demo_1700000000'' \<and>
     map conversation_id rs = [''demo_1700000000'', ''other''] \<and>
     conversation_history r = turns (rs ! 0) @ turns r \<and>
     length (conversation_history r) = 4"
proof -
  have none: "full_transcript (voice_ai_init True False) c = []" for c
    by (simp add: full_transcript_def voice_ai_init_def)
  have id1: "session_id sample_env None = ''demo_1700000000''"
    by (simp add: session_id_def sample_env_def str_int_sample)
  let ?reqs = "[(sample_env, ''Hello'', None), (sample_env_later, ''Hi'', Some ''other'')]"
  from transcript_append_only [of "voice_ai_init True False" ?reqs
      sample_env_later "''Can you help?''" "Some ''demo_1700000000''"]
  obtain rs r s' where
    whole: "run (voice_ai_init True False)
        (?reqs @ [(sample_env_later, ''Can you help?'', Some ''demo_1700000000'')]) = Inr (rs @ [r], s')"
    and len: "length rs = length ?reqs"
    and hist: "conversation_history r =
       full_transcript (voice_ai_init True False) (conversation_id r) @
       concat (map turns (filter (\<lambda>x. conversation_id x = conversation_id r) (rs @ [r])))"
    by (elim exE conjE) (rule that, assumption+)
  from len obtain r1 r2 where rs: "rs = [r1, r2]"
    by (cases rs; cases "tl rs") auto
  have ids: "conversation_id r1 = ''demo_1700000000'' \<and> conversation_id r2 = ''other'' \<and>
      conversation_id r = ''demo_1700000000''"
    using run_ids [OF whole] unfolding rs
    by (simp add: id1) (simp add: session_id_def)
  have run: "run (voice_ai_init True False) sample_requests = Inr (rs @ [r], s')"
    using whole by (simp add: sample_requests_def)
  have h: "conversation_history r = turns (rs ! 0) @ turns r"
    using hist ids by (simp add: rs none)
  then have "length (conversation_history r) = 4"
    by (simp add: turns_def)
  with run h ids rs show ?thesis
    by (intro exI [of _ rs] exI [of _ r] exI [of _ s']) simp
qed

section \<open>Shape of the recorded turns\<close>

lemma make_message_well_formed:
  "who = ''user'' \<or> who = ''ai'' \<Longrightarrow> well_formed_turn (make_message ts who text)"
  by (auto simp add: well_formed_turn_def make_message_def)

text \<open>
  Claim C8. Being made of well-formed turns is an invariant of the transcripts: if
  every turn of every transcript has a speaker that is \<open>"user"\<close> or \<open>"ai"\<close> (the
  assistant), the type tag \<open>"text"\<close> and a timestamp, then after any sequence of calls
  this holds again for every transcript, and for every history returned on the way;
  the two turns each call produces are a user turn and an assistant turn of that
  shape.
\<close>

theorem turns_well_formed:
  assumes "\<forall>c. list_all well_formed_turn (full_transcript s c)"
  shows "\<exists>rs s'. run s reqs = Inr (rs, s') \<and>
           (\<forall>c. list_all well_formed_turn (full_transcript s' c)) \<and>
           list_all (\<lambda>r. list_all well_formed_turn (conversation_history r) \<and>
                        map_of (user_message r) ''speaker'' = Some ''user'' \<and>
                        map_of (ai_response r) ''speaker'' = Some ''ai'') rs"
  using assms
proof (induction reqs arbitrary: s)
  case Nil
  then show ?case by simp
next
  case (Cons q reqs)
  obtain e user_input cid where q: "q = (e, user_input, cid)"
    by (cases q)
  obtain r s1 reply where step: "process_demo_conversation s e user_input cid = Inr (r, s1)"
    and um: "user_message r = make_message (user_timestamp e) ''user'' user_input"
    and am: "ai_response r = make_message (ai_timestamp e) ''ai'' reply"
    and hist: "conversation_history r =
        full_transcript s (conversation_id r) @ [user_message r, ai_response r]"
    and convs: "\<forall>c. full_transcript s1 c =
        (if c = conversation_id r then conversation_history r else full_transcript s c)"
    by (rule process_demo_conversation_step [of s e user_input cid])
  from um have wf_um: "well_formed_turn (user_message r)"
    by (simp add: make_message_well_formed)
  from am have wf_am: "well_formed_turn (ai_response r)"
    by (auto simp add: make_message_well_formed)
  from um am have speakers: "map_of (user_message r) ''speaker'' = Some ''user'' \<and>
      map_of (ai_response r) ''speaker'' = Some ''ai''"
    by (auto simp add: make_message_def)
  from hist wf_um wf_am Cons.prems have wf_hist: "list_all well_formed_turn (conversation_history r)"
    by simp
  with convs Cons.prems have inv: "\<forall>c. list_all well_formed_turn (full_transcript s1 c)"
    by simp
  from Cons.IH [OF inv] obtain rs s' where rest: "run s1 reqs = Inr (rs, s')"
    and inv': "\<forall>c. list_all well_formed_turn (full_transcript s' c)"
    and res: "list_all (\<lambda>r. list_all well_formed_turn (conversation_history r) \<and>
                        map_of (user_message r) ''speaker'' = Some ''user'' \<and>
                        map_of (ai_response r) ''speaker'' = Some ''ai'') rs"
    by (elim exE conjE) (rule that, assumption+)
  have "run s (q # reqs) = Inr (r # rs, s')"
    using q step rest by simp
  with inv' res wf_hist speakers show ?case
    by simp
qed

theorem turns_well_formed_witness:
  "\<exists>rs s'. run (voice_ai_init True False) sample_requests = Inr (rs, s') \<and>
     list_all well_formed_turn (full_transcript s' ''demo_1700000000'') \<and>
     list_all well_formed_turn (full_transcript s' ''other'') \<and>
     list_all (\<lambda>r. map_of (user_message r) ''speaker'' = Some ''user'' \<and>
                  map_of (ai_response r) ''speaker'' = Some ''ai'') rs"
proof -
  have "\<forall>c. list_all well_formed_turn (full_transcript (voice_ai_init True False) c)"
    by (simp add: full_transcript_def voice_ai_init_def)
  from turns_well_formed [OF this, of sample_requests] show ?thesis
    by (auto simp add: list_all_iff)
qed

section \<open>Replies of the mock processor\<close>

lemma generate_response_mock:
  "demo_mode s \<Longrightarrow> \<not> llm_loaded s \<Longrightarrow>
   generate_response s e user_input cid =
     (responses ! (response_index s mod 7), s\<lparr>response_index := response_index s + 1\<rparr>)"
  by (simp add: generate_response_def mock_generate_response_def Let_def length_responses)

lemma distinct_responses: "distinct responses"
  by (simp add: responses_def)

text \<open>
  Claim C10. In demo mode with no language model loaded, every call succeeds and the
  reply to the i-th request of a sequence (from 0, whatever its session) is the canned
  response at index (n + i) mod 7, where n is the counter at the start of the
  sequence, 0 after start-up; each request advances the counter by one. The index
  depends neither on the input nor on the session id, and since the seven responses
  are pairwise distinct, the reply a session gets changes with the number of requests
  that other sessions have made before.
\<close>

theorem mock_reply_round_robin:
  assumes "demo_mode s" and "\<not> llm_loaded s"
  shows "\<exists>rs s'. run s reqs = Inr (rs, s') \<and> length rs = length reqs \<and>
           response_index s' = response_index s + length reqs \<and>
           (\<forall>i<length reqs. message_text (ai_response (rs ! i)) =
              Some (responses ! ((response_index s + i) mod 7))) \<and>
           response_index (voice_ai_init True False) = 0 \<and>
           length responses = 7 \<and> distinct responses"
  using assms
proof (induction reqs arbitrary: s)
  case Nil
  then show ?case
    by (simp add: voice_ai_init_def length_responses distinct_responses)
next
  case (Cons q reqs)
  obtain e user_input cid where q: "q = (e, user_input, cid)"
    by (cases q)
  obtain r s1 where step: "process_demo_conversation s e user_input cid = Inr (r, s1)"
    and reply: "message_text (ai_response r) = Some (responses ! (response_index s mod 7))"
    and idx: "response_index s1 = response_index s + 1"
    and flags: "demo_mode s1" "\<not> llm_loaded s1"
    using process_demo_conversation_eq [of s e user_input cid] Cons.prems
    by (simp add: generate_response_mock message_text_def make_message_def)
  from Cons.IH [OF flags] obtain rs s' where rest: "run s1 reqs = Inr (rs, s')"
    and len: "length rs = length reqs"
    and idx': "response_index s' = response_index s1 + length reqs"
    and replies: "\<forall>i<length reqs. message_text (ai_response (rs ! i)) =
              Some (responses ! ((response_index s1 + i) mod 7))"
    by (elim exE conjE) (rule that, assumption+)
  have whole: "run s (q # reqs) = Inr (r # rs, s')"
    using q step rest by simp
  have "\<forall>i<length (q # reqs). message_text (ai_response ((r # rs) ! i)) =
              Some (responses ! ((response_index s + i) mod 7))"
  proof (intro allI impI)
    fix i
    assume "i < length (q # reqs)"
    then show "message_text (ai_response ((r # rs) ! i)) =
              Some (responses ! ((response_index s + i) mod 7))"
      using reply replies idx by (cases i) simp_all
  qed
  with whole len idx idx' show ?case
    by (simp add: voice_ai_init_def length_responses distinct_responses)
qed

theorem mock_reply_round_robin_witness:
  "(\<exists>rs s'. run (voice_ai_init True False) sample_requests = Inr (rs, s') \<and>
      map (\<lambda>r. message_text (ai_response r)) rs =
        [Some ''I understand you'd like assistance. How can I help you today?'',
         Some ''Thank you for that information. Let me help you with that.'',
         Some ''I see. Could you provide more details about your request?'']) \<and>
   (\<exists>rs s'. run (voice_ai_init True False) [(sample_env_later, ''Hi'', Some ''other'')]
        = Inr (rs, s') \<and>
      map (\<lambda>r. message_text (ai_response r)) rs =
        [Some ''I understand you'd like assistance. How can I help you today?''])"
proof -
  have demo: "demo_mode (voice_ai_init True False)"
    and mock: "\<not> llm_loaded (voice_ai_init True False)"
    by (simp_all add: voice_ai_init_def)
  have zero: "response_index (voice_ai_init True False) = 0"
    by (simp add: voice_ai_init_def)
  have three: "length sample_requests = 3"
    by (simp add: sample_requests_def)
  from mock_reply_round_robin [OF demo mock, of sample_requests]
  obtain rs s' where run3: "run (voice_ai_init True False) sample_requests = Inr (rs, s')"
    and len3: "length rs = length sample_requests"
    and replies3: "\<forall>i<length sample_requests. message_text (ai_response (rs ! i)) =
        Some (responses ! ((response_index (voice_ai_init True False) + i) mod 7))"
    by (elim exE conjE) (rule that, assumption+)
  from len3 three obtain r0 r1 r2 where rs: "rs = [r0, r1, r2]"
    by (cases rs; cases "tl rs"; cases "tl (tl rs)") auto
  from replies3 three zero have
    "message_text (ai_response (rs ! 0)) = Some (responses ! 0)"
    "message_text (ai_response (rs ! 1)) = Some (responses ! 1)"
    "message_text (ai_response (rs ! 2)) = Some (responses ! 2)"
    by simp_all
  then have first: "map (\<lambda>r. message_text (ai_response r)) rs =
        [Some ''I understand you'd like assistance. How can I help you today?'',
         Some ''Thank you for that information. Let me help you with that.'',
         Some ''I see. Could you provide more details about your request?'']"
    by (simp add: rs responses_def)
  from mock_reply_round_robin [OF demo mock, of "[(sample_env_later, ''Hi'', Some ''other'')]"]
  obtain qs t' where run1: "run (voice_ai_init True False)
        [(sample_env_later, ''Hi'', Some ''other'')] = Inr (qs, t')"
    and len1: "length qs = length [(sample_env_later, ''Hi'', Some ''other'')]"
    and replies1: "\<forall>i<length [(sample_env_later, ''Hi'', Some ''other'')].
        message_text (ai_response (qs ! i)) =
        Some (responses ! ((response_index (voice_ai_init True False) + i) mod 7))"
    by (elim exE conjE) (rule that, assumption+)
  from len1 obtain q0 where qs: "qs = [q0]"
    by (cases qs) auto
  from replies1 zero have "message_text (ai_response (qs ! 0)) = Some (responses ! 0)"
    by simp
  then have second: "map (\<lambda>r. message_text (ai_response r)) qs =
        [Some ''I understand you'd like assistance. How can I help you today?'']"
    by (simp add: qs responses_def)
  show ?thesis
    by (intro conjI exI) (rule run3, rule first, rule run1, rule second)
qed

section \<open>The context window\<close>








end
